theory Spec2Isabelle
  imports Main "HOL-Library.AList" "HOL-Library.Sublist"
begin

section \<open>Inventory API: a shallow embedding of the route handlers\<close>

text \<open>
  The service keeps one collection of documents, \<open>item\<close>, in a document store and
  exposes handlers that list, create, update, adjust, delete and summarise the items.
  Each handler of \<^verbatim>\<open>main.py\<close> is a function here. An exception is a value of
  \<open>error\<close> on the left of a sum, and a handler that writes to the store returns the
  store after the call beside its result.

  Text is modelled as a sequence of ASCII characters.
\<close>

subsection \<open>Exceptions\<close>

datatype error =
    HTTPException (status_code: nat) (detail: string)
  | TypeError
  | ValueError
  | OverflowError
  | AttributeError
  | StoreUnavailable
  | DuplicateKeyError
  | InvalidId

subsection \<open>Characters\<close>

definition isspace :: "char \<Rightarrow> bool" where
  "isspace c \<longleftrightarrow> c \<in> set [CHR '' '', CHR 0x09, CHR 0x0A, CHR 0x0B, CHR 0x0C, CHR 0x0D]"

definition to_lower :: "char \<Rightarrow> char" where
  "to_lower c =
     (case map_of (zip ''ABCDEFGHIJKLMNOPQRSTUVWXYZ'' ''abcdefghijklmnopqrstuvwxyz'') c of
        Some l \<Rightarrow> l
      | None \<Rightarrow> c)"

definition hex_digit :: "char \<Rightarrow> bool" where
  "hex_digit c \<longleftrightarrow> c \<in> set ''0123456789abcdefABCDEF''"

definition digit_value :: "char \<Rightarrow> nat option" where
  "digit_value c = map_of (zip ''0123456789'' [0, 1, 2, 3, 4, 5, 6, 7, 8, 9]) c"

subsection \<open>The store's identifier type\<close>

text \<open>
  An \<open>ObjectId\<close> is a sequence of bytes; it is held here as the lower-case hexadecimal
  text of these bytes, which is also what \<^verbatim>\<open>str\<close> returns for it. The constructor
  applied to text accepts exactly 24 characters that \<^verbatim>\<open>bytes.fromhex\<close> can read:
  pairs of hexadecimal digits, with white space skipped before each pair.
\<close>

datatype oid = Oid (oid_str: string)

fun fromhex :: "string \<Rightarrow> string option" where
  "fromhex [] = Some []"
| "fromhex (c # cs) =
     (if isspace c then fromhex cs
      else (case cs of
              [] \<Rightarrow> None
            | d # ds \<Rightarrow>
                if hex_digit c \<and> hex_digit d
                then map_option (\<lambda>h. to_lower c # to_lower d # h) (fromhex ds)
                else None))"

definition ObjectId :: "string \<Rightarrow> oid option" where
  "ObjectId s = (if length s = 24 then map_option Oid (fromhex s) else None)"

subsection \<open>Values and documents\<close>

text \<open>
  A floating-point number enters the handlers only through \<^verbatim>\<open>int\<close>, \<^verbatim>\<open>str\<close>
  and its truth value, so a float is represented by what these three return for it.
\<close>

datatype pyfloat = PyFloat (float_int: "error + int") (float_str: string) (float_bool: bool)

datatype val = VNull | VInt int | VFloat pyfloat | VStr string | VOid oid

type_synonym doc = "(string \<times> val) list"

text \<open>\<^verbatim>\<open>int(s)\<close> for text: optional surrounding white space, an optional sign, and
  decimal digits that single underscores may separate.\<close>

fun dec_digits :: "string \<Rightarrow> nat list option" where
  "dec_digits [] = None"
| "dec_digits (c # cs) =
     (case digit_value c of
        None \<Rightarrow> None
      | Some n \<Rightarrow>
          (case cs of
             [] \<Rightarrow> Some [n]
           | d # ds \<Rightarrow>
               if d = CHR ''_'' then map_option ((#) n) (dec_digits ds)
               else map_option ((#) n) (dec_digits cs)))"

definition strip :: "string \<Rightarrow> string" where
  "strip s = rev (dropWhile isspace (rev (dropWhile isspace s)))"

definition nat_of_digits :: "nat list \<Rightarrow> nat" where
  "nat_of_digits ds = foldl (\<lambda>acc d. 10 * acc + d) 0 ds"

definition int_of_str :: "string \<Rightarrow> int option" where
  "int_of_str s =
     (case strip s of
        [] \<Rightarrow> None
      | c # cs \<Rightarrow>
          if c = CHR ''-'' then map_option (\<lambda>ds. - int (nat_of_digits ds)) (dec_digits cs)
          else if c = CHR ''+'' then map_option (\<lambda>ds. int (nat_of_digits ds)) (dec_digits cs)
          else map_option (\<lambda>ds. int (nat_of_digits ds)) (dec_digits (c # cs)))"

fun str_of_nat :: "nat \<Rightarrow> string" where
  "str_of_nat n =
     (if n < 10 then [''0123456789'' ! n]
      else str_of_nat (n div 10) @ [''0123456789'' ! (n mod 10)])"

definition str_of_int :: "int \<Rightarrow> string" where
  "str_of_int i = (if i < 0 then CHR ''-'' # str_of_nat (nat (- i)) else str_of_nat (nat i))"

fun py_int :: "val \<Rightarrow> error + int" where
  "py_int (VInt n) = Inr n"
| "py_int (VFloat f) = float_int f"
| "py_int (VStr s) = (case int_of_str s of None \<Rightarrow> Inl ValueError | Some n \<Rightarrow> Inr n)"
| "py_int VNull = Inl TypeError"
| "py_int (VOid _) = Inl TypeError"

fun py_str :: "val \<Rightarrow> string" where
  "py_str VNull = ''None''"
| "py_str (VInt n) = str_of_int n"
| "py_str (VFloat f) = float_str f"
| "py_str (VStr s) = s"
| "py_str (VOid i) = oid_str i"

fun py_bool :: "val \<Rightarrow> bool" where
  "py_bool VNull = False"
| "py_bool (VInt n) = (n \<noteq> 0)"
| "py_bool (VFloat f) = float_bool f"
| "py_bool (VStr s) = (s \<noteq> [])"
| "py_bool (VOid _) = True"

definition py_or :: "val \<Rightarrow> val \<Rightarrow> val" where
  "py_or a b = (if py_bool a then a else b)"

definition dict_get :: "doc \<Rightarrow> string \<Rightarrow> val \<Rightarrow> val" where
  "dict_get d k dflt = (case map_of d k of None \<Rightarrow> dflt | Some v \<Rightarrow> v)"

text \<open>The truth value of what \<^verbatim>\<open>find_one\<close> returns: \<^verbatim>\<open>None\<close> and the empty
  dictionary are false.\<close>

definition truthy_doc :: "doc option \<Rightarrow> bool" where
  "truthy_doc r = (case r of None \<Rightarrow> False | Some d \<Rightarrow> d \<noteq> [])"

definition serialize_doc :: "doc \<Rightarrow> doc" where
  "serialize_doc doc =
     (case map_of doc ''_id'' of
        None \<Rightarrow> doc
      | Some v \<Rightarrow> AList.update ''id'' (VStr (py_str v)) (AList.delete ''_id'' doc))"

subsection \<open>Regular expressions of the store\<close>

text \<open>
  The store searches a text field with a Perl-compatible regular expression. The
  fragment modelled is a sequence of ordinary characters and dots: \<open>pcre_compile\<close>
  returns \<open>None\<close> on any other metacharacter, and nothing is stated about such a
  pattern. A dot matches every character but the line feed; with option \<open>i\<close> letters
  match in either case.
\<close>

datatype atom = Lit char | AnyChar



fun atom_match :: "bool \<Rightarrow> atom \<Rightarrow> char \<Rightarrow> bool" where
  "atom_match ci (Lit a) c = (if ci then to_lower a = to_lower c else a = c)"
| "atom_match ci AnyChar c = (c \<noteq> CHR 0x0A)"

fun match_here :: "bool \<Rightarrow> atom list \<Rightarrow> string \<Rightarrow> bool" where
  "match_here ci [] s = True"
| "match_here ci (a # as) [] = False"
| "match_here ci (a # as) (c # cs) = (atom_match ci a c \<and> match_here ci as cs)"

fun regex_search :: "bool \<Rightarrow> atom list \<Rightarrow> string \<Rightarrow> bool" where
  "regex_search ci r [] = match_here ci r []"
| "regex_search ci r (c # cs) = (match_here ci r (c # cs) \<or> regex_search ci r cs)"

subsection \<open>Queries and the collection\<close>

text \<open>
  A filter is a dictionary: every entry must hold. An entry is a condition on a field or
  an \<open>$or\<close> of dictionaries of such conditions. Equality is used by the handlers on
  text and on identifiers only. A regular expression is held in parsed form, with its
  options.
\<close>

datatype cond = Eq val | Ne val | Regex "atom list" string

datatype clause = Field string cond | Or "(string \<times> cond) list list"

fun cond_holds :: "cond \<Rightarrow> val option \<Rightarrow> bool" where
  "cond_holds (Eq v) x = (x = Some v)"
| "cond_holds (Ne v) x = (x \<noteq> Some v)"
| "cond_holds (Regex r opts) (Some (VStr s)) = regex_search (CHR ''i'' \<in> set opts) r s"
| "cond_holds (Regex r opts) _ = False"

definition field_holds :: "doc \<Rightarrow> string \<times> cond \<Rightarrow> bool" where
  "field_holds d fc = cond_holds (snd fc) (map_of d (fst fc))"

fun clause_holds :: "doc \<Rightarrow> clause \<Rightarrow> bool" where
  "clause_holds d (Field f c) = cond_holds c (map_of d f)"
| "clause_holds d (Or alts) = list_ex (list_all (field_holds d)) alts"

definition matches :: "clause list \<Rightarrow> doc \<Rightarrow> bool" where
  "matches q d = list_all (clause_holds d) q"

text \<open>The collection is the list of its documents in insertion order.\<close>

definition find_one :: "clause list \<Rightarrow> doc list \<Rightarrow> doc option" where
  "find_one q items = List.find (matches q) items"

definition find_all :: "clause list \<Rightarrow> doc list \<Rightarrow> doc list" where
  "find_all q items = filter (matches q) items"

definition set_fields :: "doc \<Rightarrow> doc \<Rightarrow> doc" where
  "set_fields payload d = fold (\<lambda>kv. AList.update (fst kv) (snd kv)) payload d"

text \<open>\<open>update_one q {$set: payload}\<close> and \<open>delete_one q\<close> act on the first document
  that matches and return the number of documents matched or deleted.\<close>

fun update_one :: "clause list \<Rightarrow> doc \<Rightarrow> doc list \<Rightarrow> nat \<times> doc list" where
  "update_one q payload [] = (0, [])"
| "update_one q payload (d # ds) =
     (if matches q d then (1, set_fields payload d # ds)
      else (case update_one q payload ds of (n, ds') \<Rightarrow> (n, d # ds')))"

fun delete_one :: "clause list \<Rightarrow> doc list \<Rightarrow> nat \<times> doc list" where
  "delete_one q [] = (0, [])"
| "delete_one q (d # ds) =
     (if matches q d then (1, ds)
      else (case delete_one q ds of (n, ds') \<Rightarrow> (n, d # ds')))"

text \<open>\<open>insert_one\<close> stores the document under the identifier the driver generated for
  it; the store refuses an identifier that is already in the collection.\<close>

definition insert_one :: "oid \<Rightarrow> doc \<Rightarrow> doc list \<Rightarrow> error + doc list" where
  "insert_one new_id d items =
     (if find_one [Field ''_id'' (Eq (VOid new_id))] items \<noteq> None then Inl DuplicateKeyError
      else Inr (items @ [(''_id'', VOid new_id) # d]))"

text \<open>The handle \<open>db\<close> is \<open>None\<close> when no connection was established.\<close>

type_synonym database = "doc list option"

subsection \<open>The schemas\<close>

text \<open>Modelled from the spec: the schema \<open>Item\<close> of the module \<^verbatim>\<open>schemas\<close>, which is
  not part of the sources read here. The spec gives an item a name, a SKU, a category and a
  location (text), a quantity and a reorder threshold (integers), a cost and a price
  (numbers), all required on creation.\<close>

record Item =
  name :: string
  sku :: string
  category :: string
  location :: string
  quantity :: int
  min_stock :: int
  cost :: pyfloat
  price :: pyfloat

definition model_dump :: "Item \<Rightarrow> doc" where
  "model_dump item =
     [(''name'', VStr (Item.name item)), (''sku'', VStr (Item.sku item)),
      (''category'', VStr (Item.category item)), (''location'', VStr (Item.location item)),
      (''quantity'', VInt (Item.quantity item)), (''min_stock'', VInt (Item.min_stock item)),
      (''cost'', VFloat (Item.cost item)), (''price'', VFloat (Item.price item))]"

record ItemUpdate =
  name :: "string option"
  sku :: "string option"
  category :: "string option"
  location :: "string option"
  quantity :: "int option"
  min_stock :: "int option"
  cost :: "pyfloat option"
  price :: "pyfloat option"

text \<open>\<^verbatim>\<open>data.model_dump(exclude_none=True)\<close>: the fields that are set, in the order
  of their declaration.\<close>

definition model_dump_exclude_none :: "ItemUpdate \<Rightarrow> doc" where
  "model_dump_exclude_none data =
     List.map_filter (\<lambda>kv. map_option (Pair (fst kv)) (snd kv))
       [(''name'', map_option VStr (ItemUpdate.name data)),
        (''sku'', map_option VStr (ItemUpdate.sku data)),
        (''category'', map_option VStr (ItemUpdate.category data)),
        (''location'', map_option VStr (ItemUpdate.location data)),
        (''quantity'', map_option VInt (ItemUpdate.quantity data)),
        (''min_stock'', map_option VInt (ItemUpdate.min_stock data)),
        (''cost'', map_option VFloat (ItemUpdate.cost data)),
        (''price'', map_option VFloat (ItemUpdate.price data))]"

record AdjustStock =
  delta :: int

subsection \<open>The store adapter\<close>

text \<open>Modelled from the spec: \<open>create_document\<close> of the module \<^verbatim>\<open>database\<close>, which
  is not part of the sources read here. The spec says that it inserts the document and
  returns the new identifier, and that it fails when there is no connection. The
  identifier that the store assigns is the argument \<open>new_id\<close>.\<close>

definition create_document :: "database \<Rightarrow> oid \<Rightarrow> Item \<Rightarrow> (error + string) \<times> database" where
  "create_document db new_id item =
     (case db of
        None \<Rightarrow> (Inl StoreUnavailable, db)
      | Some items \<Rightarrow>
          (case insert_one new_id (model_dump item) items of
             Inl e \<Rightarrow> (Inl e, db)
           | Inr items' \<Rightarrow> (Inr (oid_str new_id), Some items')))"


subsection \<open>The framework's responses\<close>

text \<open>A route declared with a status code answers a returned value with that status;
  the framework sends no body with a status that does not allow one.\<close>

datatype 'a response = Response (resp_status: nat) (resp_body: "'a option")

definition is_body_allowed_for_status_code :: "nat \<Rightarrow> bool" where
  "is_body_allowed_for_status_code c \<longleftrightarrow> \<not> (c < 200 \<or> c \<in> {204, 205, 304})"

definition respond :: "nat \<Rightarrow> error + 'a \<Rightarrow> error + 'a response" where
  "respond c r =
     (case r of
        Inl e \<Rightarrow> Inl e
      | Inr v \<Rightarrow> Inr (Response c (if is_body_allowed_for_status_code c then Some v else None)))"

subsection \<open>The handlers\<close>


definition create_item :: "database \<Rightarrow> oid \<Rightarrow> Item \<Rightarrow> (error + doc) \<times> database" where
  "create_item db new_id item =
     (case db of
        None \<Rightarrow> (Inl AttributeError, db)
      | Some items \<Rightarrow>
          if truthy_doc (find_one [Field ''sku'' (Eq (VStr (Item.sku item)))] items)
          then (Inl (HTTPException 400 ''SKU already exists''), db)
          else
            (case create_document db new_id item of
               (Inl e, db') \<Rightarrow> (Inl e, db')
             | (Inr inserted_id, db') \<Rightarrow>
                 (case ObjectId inserted_id of
                    None \<Rightarrow> (Inl InvalidId, db')
                  | Some oid \<Rightarrow>
                      (case db' of
                         None \<Rightarrow> (Inl AttributeError, db')
                       | Some items' \<Rightarrow>
                           (case find_one [Field ''_id'' (Eq (VOid oid))] items' of
                              None \<Rightarrow> (Inl TypeError, db')
                            | Some d \<Rightarrow> (Inr (serialize_doc d), db'))))))"

definition update_item :: "database \<Rightarrow> string \<Rightarrow> ItemUpdate \<Rightarrow> (error + doc) \<times> database" where
  "update_item db item_id data =
     (case ObjectId item_id of
        None \<Rightarrow> (Inl (HTTPException 400 ''Invalid item id''), db)
      | Some oid \<Rightarrow>
          (let payload = model_dump_exclude_none data in
           if payload = [] then (Inl (HTTPException 400 ''No fields to update''), db)
           else
             (case db of
                None \<Rightarrow> (Inl AttributeError, db)
              | Some items \<Rightarrow>
                  if (case map_of payload ''sku'' of
                        None \<Rightarrow> False
                      | Some s \<Rightarrow>
                          truthy_doc
                            (find_one [Field ''sku'' (Eq s), Field ''_id'' (Ne (VOid oid))] items))
                  then (Inl (HTTPException 400 ''SKU already in use by another item''), db)
                  else
                    (case update_one [Field ''_id'' (Eq (VOid oid))] payload items of
                       (matched_count, items') \<Rightarrow>
                         if matched_count = 0
                         then (Inl (HTTPException 404 ''Item not found''), Some items')
                         else
                           (case find_one [Field ''_id'' (Eq (VOid oid))] items' of
                              None \<Rightarrow> (Inl TypeError, Some items')
                            | Some d \<Rightarrow> (Inr (serialize_doc d), Some items'))))))"

definition adjust_stock :: "database \<Rightarrow> string \<Rightarrow> AdjustStock \<Rightarrow> (error + doc) \<times> database" where
  "adjust_stock db item_id body =
     (case ObjectId item_id of
        None \<Rightarrow> (Inl (HTTPException 400 ''Invalid item id''), db)
      | Some oid \<Rightarrow>
          (case db of
             None \<Rightarrow> (Inl AttributeError, db)
           | Some items \<Rightarrow>
               (let doc = find_one [Field ''_id'' (Eq (VOid oid))] items in
                if \<not> truthy_doc doc then (Inl (HTTPException 404 ''Item not found''), db)
                else
                  (case py_int (dict_get (the doc) ''quantity'' (VInt 0)) of
                     Inl e \<Rightarrow> (Inl e, db)
                   | Inr n \<Rightarrow>
                       (let new_qty = max 0 (n + delta body);
                            items' = snd (update_one [Field ''_id'' (Eq (VOid oid))]
                                            [(''quantity'', VInt new_qty)] items)
                        in (case find_one [Field ''_id'' (Eq (VOid oid))] items' of
                              None \<Rightarrow> (Inl TypeError, Some items')
                            | Some updated \<Rightarrow> (Inr (serialize_doc updated), Some items')))))))"

definition delete_item :: "database \<Rightarrow> string \<Rightarrow> (error + (string \<times> bool) list) \<times> database" where
  "delete_item db item_id =
     (case ObjectId item_id of
        None \<Rightarrow> (Inl (HTTPException 400 ''Invalid item id''), db)
      | Some oid \<Rightarrow>
          (case db of
             None \<Rightarrow> (Inl AttributeError, db)
           | Some items \<Rightarrow>
               (case delete_one [Field ''_id'' (Eq (VOid oid))] items of
                  (deleted_count, items') \<Rightarrow>
                    if deleted_count = 0 then (Inl (HTTPException 404 ''Item not found''), Some items')
                    else (Inr [(''ok'', True)], Some items'))))"

record stats =
  total_skus :: int
  total_units :: int
  low_stock :: int

text \<open>The two generator expressions of \<open>inventory_stats\<close>; the first conversion that
  raises ends the sum.\<close>

fun sum_quantity :: "doc list \<Rightarrow> error + int" where
  "sum_quantity [] = Inr 0"
| "sum_quantity (i # items) =
     (case py_int (dict_get i ''quantity'' (VInt 0)) of
        Inl e \<Rightarrow> Inl e
      | Inr n \<Rightarrow> (case sum_quantity items of Inl e \<Rightarrow> Inl e | Inr s \<Rightarrow> Inr (n + s)))"

definition below_min :: "doc \<Rightarrow> error + bool" where
  "below_min i =
     (case py_int (py_or (dict_get i ''min_stock'' (VInt 0)) (VInt 0)) of
        Inl e \<Rightarrow> Inl e
      | Inr m \<Rightarrow>
          (case py_int (py_or (dict_get i ''quantity'' (VInt 0)) (VInt 0)) of
             Inl e \<Rightarrow> Inl e
           | Inr n \<Rightarrow> Inr (m > n)))"

fun count_low :: "doc list \<Rightarrow> error + int" where
  "count_low [] = Inr 0"
| "count_low (i # items) =
     (case below_min i of
        Inl e \<Rightarrow> Inl e
      | Inr b \<Rightarrow>
          (case count_low items of
             Inl e \<Rightarrow> Inl e
           | Inr s \<Rightarrow> Inr ((if b then 1 else 0) + s)))"

definition inventory_stats :: "database \<Rightarrow> error + stats" where
  "inventory_stats db =
     (case db of
        None \<Rightarrow> Inl AttributeError
      | Some coll \<Rightarrow>
          (let items = find_all [] coll in
           case sum_quantity items of
             Inl e \<Rightarrow> Inl e
           | Inr units \<Rightarrow>
               (case count_low items of
                  Inl e \<Rightarrow> Inl e
                | Inr low \<Rightarrow>
                    Inr \<lparr>total_skus = int (length items), total_units = units, low_stock = low\<rparr>)))"

subsection \<open>The routes\<close>

definition post_items :: "database \<Rightarrow> oid \<Rightarrow> Item \<Rightarrow> (error + doc response) \<times> database" where
  "post_items db new_id item =
     (case create_item db new_id item of (r, db') \<Rightarrow> (respond 201 r, db'))"

definition delete_items :: "database \<Rightarrow> string \<Rightarrow> (error + (string \<times> bool) list response) \<times> database" where
  "delete_items db item_id =
     (case delete_item db item_id of (r, db') \<Rightarrow> (respond 204 r, db'))"


subsection \<open>The search as the specification words it\<close>





section \<open>Properties\<close>

subsection \<open>The collection\<close>

lemma find_one_Nil [simp]: "find_one q [] = None"
  by (simp add: find_one_def)

lemma find_one_Cons [simp]:
  "find_one q (d # ds) = (if matches q d then Some d else find_one q ds)"
  by (simp add: find_one_def)

lemma matches_id [simp]:
  "matches [Field ''_id'' (Eq (VOid oid))] d \<longleftrightarrow> map_of d ''_id'' = Some (VOid oid)"
  by (simp add: matches_def)

lemma find_one_Some: "find_one q items = Some d \<Longrightarrow> d \<in> set items \<and> matches q d"
  by (induction items) (auto split: if_splits)

lemma find_one_None: "find_one q items = None \<longleftrightarrow> (\<forall>d\<in>set items. \<not> matches q d)"
  by (induction items) auto

lemma find_one_append:
  "\<forall>x\<in>set pre. \<not> matches q x \<Longrightarrow>
   find_one q (pre @ d # post) = (if matches q d then Some d else find_one q post)"
  by (induction pre) auto

lemma update_one_found:
  "find_one q items = Some d \<Longrightarrow>
   \<exists>pre post. items = pre @ d # post \<and> (\<forall>x\<in>set pre. \<not> matches q x) \<and>
     update_one q p items = (1, pre @ set_fields p d # post)"
proof (induction items)
  case Nil
  then show ?case by simp
next
  case (Cons a items)
  show ?case
  proof (cases "matches q a")
    case True
    with Cons.prems have "a = d" by simp
    with True have "a # items = [] @ d # items \<and> (\<forall>x\<in>set []. \<not> matches q x) \<and>
      update_one q p (a # items) = (1, [] @ set_fields p d # items)" by simp
    then show ?thesis by blast
  next
    case False
    with Cons.prems have "find_one q items = Some d" by simp
    from Cons.IH [OF this] obtain pre post where
      h: "items = pre @ d # post" "\<forall>x\<in>set pre. \<not> matches q x"
         "update_one q p items = (1, pre @ set_fields p d # post)" by blast
    with False have "a # items = (a # pre) @ d # post \<and> (\<forall>x\<in>set (a # pre). \<not> matches q x) \<and>
      update_one q p (a # items) = (1, (a # pre) @ set_fields p d # post)" by simp
    then show ?thesis by blast
  qed
qed

lemma update_one_missing: "find_one q items = None \<Longrightarrow> update_one q p items = (0, items)"
  by (induction items) (auto split: if_splits)

lemma delete_one_found: "find_one q items = Some d \<Longrightarrow> delete_one q items = (1, remove1 d items)"
proof (induction items)
  case Nil
  then show ?case by simp
next
  case (Cons a items)
  show ?case
  proof (cases "matches q a")
    case True
    with Cons.prems show ?thesis by simp
  next
    case False
    with Cons.prems have f: "find_one q items = Some d" by simp
    then have "matches q d" by (simp add: find_one_Some)
    with False have "a \<noteq> d" by auto
    with False Cons.IH [OF f] show ?thesis by simp
  qed
qed

lemma delete_one_missing: "find_one q items = None \<Longrightarrow> delete_one q items = (0, items)"
  by (induction items) (auto split: if_splits)

lemma set_fields_Nil [simp]: "set_fields [] d = d"
  by (simp add: set_fields_def)

lemma set_fields_Cons [simp]:
  "set_fields ((a, b) # xs) d = set_fields xs (AList.update a b d)"
  by (simp add: set_fields_def)

lemma map_of_set_fields:
  "distinct (map fst p) \<Longrightarrow>
   map_of (set_fields p d) k = (case map_of p k of Some v \<Rightarrow> Some v | None \<Rightarrow> map_of d k)"
proof (induction p arbitrary: d)
  case Nil
  then show ?case by simp
next
  case (Cons x xs)
  obtain a b where x: "x = (a, b)" by (cases x)
  from Cons.prems x have dx: "distinct (map fst xs)" and nx: "a \<notin> fst ` set xs" by auto
  from nx have none: "map_of xs a = None" by (simp add: map_of_eq_None_iff)
  have ih: "map_of (set_fields xs (AList.update a b d)) k =
      (case map_of xs k of Some v \<Rightarrow> Some v | None \<Rightarrow> map_of (AList.update a b d) k)"
    by (rule Cons.IH [OF dx])
  show ?case
  proof (cases "k = a")
    case True
    with none ih x show ?thesis by (simp add: update_conv')
  next
    case False
    with ih x show ?thesis by (simp add: update_conv' split: option.splits)
  qed
qed

lemma set_map_filter_opt:
  "(k, v) \<in> set (List.map_filter (\<lambda>kv. map_option (Pair (fst kv)) (snd kv)) xs) \<longleftrightarrow>
   (k, Some v) \<in> set xs"
  by (induction xs) (auto simp: List.map_filter_def)

lemma keys_map_filter:
  "map fst (List.map_filter (\<lambda>kv. map_option (Pair (fst kv)) (snd kv)) xs) =
   map fst (filter (\<lambda>kv. snd kv \<noteq> None) xs)"
  by (induction xs) (auto simp: List.map_filter_def)

lemma payload_distinct: "distinct (map fst (model_dump_exclude_none data))"
  unfolding model_dump_exclude_none_def keys_map_filter
  by (rule distinct_map_filter) simp

lemma payload_no_id: "map_of (model_dump_exclude_none data) ''_id'' = None"
proof -
  have "\<And>v. (''_id'', v) \<notin> set (model_dump_exclude_none data)"
    unfolding model_dump_exclude_none_def set_map_filter_opt by simp
  then show ?thesis by (meson map_of_SomeD not_Some_eq)
qed



lemma truthy_doc_Some: "d \<noteq> [] \<Longrightarrow> truthy_doc (Some d)"
  by (simp add: truthy_doc_def)

lemma truthy_doc_None [simp]: "\<not> truthy_doc None"
  by (simp add: truthy_doc_def)

lemma find_id_nonempty:
  "find_one [Field ''_id'' (Eq (VOid oid))] items = Some d \<Longrightarrow> d \<noteq> [] \<and> map_of d ''_id'' = Some (VOid oid)"
  by (drule find_one_Some) auto

text \<open>Claim C6. For a well-formed id, an update whose payload has no field set fails with
  status 400 and the detail \<open>No fields to update\<close>. The store \<open>db\<close> is arbitrary, also
  the absent connection, so the store is not consulted; it is returned unchanged.\<close>
theorem update_item_empty_payload:
  "ObjectId item_id = Some oid \<Longrightarrow> model_dump_exclude_none data = [] \<Longrightarrow>
   update_item db item_id data = (Inl (HTTPException 400 ''No fields to update''), db)"
  by (simp add: update_item_def)

theorem update_item_empty_payload_witness:
  "ObjectId ''0123456789abcdef01234567'' = Some (Oid ''0123456789abcdef01234567'') \<and>
   model_dump_exclude_none
     \<lparr>name = None, sku = None, category = None, location = None, quantity = None,
      min_stock = None, cost = None, price = None\<rparr> = [] \<and>
   update_item (Some [[(''_id'', VOid (Oid ''0123456789abcdef01234567'')), (''quantity'', VInt 4)]])
     ''0123456789abcdef01234567''
     \<lparr>name = None, sku = None, category = None, location = None, quantity = None,
      min_stock = None, cost = None, price = None\<rparr> =
   (Inl (HTTPException 400 ''No fields to update''),
    Some [[(''_id'', VOid (Oid ''0123456789abcdef01234567'')), (''quantity'', VInt 4)]])"
proof -
  have h1: "ObjectId ''0123456789abcdef01234567'' = Some (Oid ''0123456789abcdef01234567'')"
    by code_simp
  have h2: "model_dump_exclude_none
     \<lparr>name = None, sku = None, category = None, location = None, quantity = None,
      min_stock = None, cost = None, price = None\<rparr> = []"
    by (simp add: model_dump_exclude_none_def List.map_filter_def)
  show ?thesis using h1 h2 update_item_empty_payload [OF h1 h2] by simp
qed



text \<open>Claim C3. For a well-formed id that matches a stored item, the delete route removes
  that one document, keeps the others, and answers with status 204 and no body.\<close>
theorem delete_item_removes:
  assumes "ObjectId item_id = Some oid"
    and "find_one [Field ''_id'' (Eq (VOid oid))] items = Some doc"
  shows "delete_items (Some items) item_id = (Inr (Response 204 None), Some (remove1 doc items)) \<and>
     doc \<in> set items \<and> length (remove1 doc items) + 1 = length items"
proof -
  from assms(2) have mem: "doc \<in> set items" by (simp add: find_one_Some)
  have "delete_item (Some items) item_id = (Inr [(''ok'', True)], Some (remove1 doc items))"
    using assms delete_one_found [OF assms(2)] by (simp add: delete_item_def)
  then have "delete_items (Some items) item_id = (Inr (Response 204 None), Some (remove1 doc items))"
    by (simp add: delete_items_def respond_def is_body_allowed_for_status_code_def)
  moreover have "length (remove1 doc items) + 1 = length items"
  proof -
    from mem have "0 < length items" by (cases items) auto
    with mem show ?thesis by (simp add: length_remove1)
  qed
  ultimately show ?thesis using mem by simp
qed

theorem delete_item_removes_witness:
  "ObjectId ''0123456789abcdef01234567'' = Some (Oid ''0123456789abcdef01234567'') \<and>
   delete_items
     (Some [[(''_id'', VOid (Oid ''0123456789abcdef01234567'')), (''sku'', VStr ''A1'')]])
     ''0123456789abcdef01234567'' = (Inr (Response 204 None), Some [])"
proof -
  let ?d = "[(''_id'', VOid (Oid ''0123456789abcdef01234567'')), (''sku'', VStr ''A1'')]"
  have h1: "ObjectId ''0123456789abcdef01234567'' = Some (Oid ''0123456789abcdef01234567'')"
    by code_simp
  have h2: "find_one [Field ''_id'' (Eq (VOid (Oid ''0123456789abcdef01234567'')))] [?d] = Some ?d"
    by simp
  show ?thesis using h1 delete_item_removes [OF h1 h2] by simp
qed


text \<open>Claim C8. For a path id that does not parse into an \<open>ObjectId\<close>, the update, the
  adjust-stock and the delete handlers fail with status 400 and the detail
  \<open>Invalid item id\<close>, for every store \<open>db\<close>, also the absent connection, so the store is
  not consulted. A well-formed id that matches no document gives the different error 404
  \<open>Item not found\<close>: in adjust-stock and delete always, in update when the payload is not
  empty and carries no SKU.\<close>
theorem invalid_id_rejected:
  assumes "ObjectId bad = None"
    and "ObjectId good = Some oid"
    and "find_one [Field ''_id'' (Eq (VOid oid))] items = None"
  shows "update_item db bad data = (Inl (HTTPException 400 ''Invalid item id''), db) \<and>
     adjust_stock db bad body = (Inl (HTTPException 400 ''Invalid item id''), db) \<and>
     delete_item db bad = (Inl (HTTPException 400 ''Invalid item id''), db) \<and>
     adjust_stock (Some items) good body = (Inl (HTTPException 404 ''Item not found''), Some items) \<and>
     delete_item (Some items) good = (Inl (HTTPException 404 ''Item not found''), Some items) \<and>
     (model_dump_exclude_none data \<noteq> [] \<and> map_of (model_dump_exclude_none data) ''sku'' = None \<longrightarrow>
        update_item (Some items) good data =
          (Inl (HTTPException 404 ''Item not found''), Some items)) \<and>
     HTTPException 400 ''Invalid item id'' \<noteq> HTTPException 404 ''Item not found''"
proof -
  have a: "update_item db bad data = (Inl (HTTPException 400 ''Invalid item id''), db)"
    using assms(1) by (simp add: update_item_def)
  have b: "adjust_stock db bad body = (Inl (HTTPException 400 ''Invalid item id''), db)"
    using assms(1) by (simp add: adjust_stock_def)
  have c: "delete_item db bad = (Inl (HTTPException 400 ''Invalid item id''), db)"
    using assms(1) by (simp add: delete_item_def)
  have d: "adjust_stock (Some items) good body =
      (Inl (HTTPException 404 ''Item not found''), Some items)"
    using assms(2,3) by (simp add: adjust_stock_def)
  have e: "delete_item (Some items) good = (Inl (HTTPException 404 ''Item not found''), Some items)"
    using assms(2) delete_one_missing [OF assms(3)] by (simp add: delete_item_def)
  have f: "model_dump_exclude_none data \<noteq> [] \<and> map_of (model_dump_exclude_none data) ''sku'' = None \<longrightarrow>
        update_item (Some items) good data =
          (Inl (HTTPException 404 ''Item not found''), Some items)"
    using assms(2) update_one_missing [OF assms(3)] by (simp add: update_item_def)
  from a b c d e f show ?thesis by simp
qed

theorem invalid_id_rejected_witness:
  "ObjectId ''not-an-id'' = None \<and>
   ObjectId ''0123456789abcdef01234567'' = Some (Oid ''0123456789abcdef01234567'') \<and>
   delete_item (Some [[(''_id'', VOid (Oid ''aaaaaaaaaaaaaaaaaaaaaaaa'')), (''sku'', VStr ''A1'')]])
     ''not-an-id'' =
     (Inl (HTTPException 400 ''Invalid item id''),
      Some [[(''_id'', VOid (Oid ''aaaaaaaaaaaaaaaaaaaaaaaa'')), (''sku'', VStr ''A1'')]]) \<and>
   delete_item None ''not-an-id'' = (Inl (HTTPException 400 ''Invalid item id''), None) \<and>
   delete_item (Some [[(''_id'', VOid (Oid ''aaaaaaaaaaaaaaaaaaaaaaaa'')), (''sku'', VStr ''A1'')]])
     ''0123456789abcdef01234567'' =
     (Inl (HTTPException 404 ''Item not found''),
      Some [[(''_id'', VOid (Oid ''aaaaaaaaaaaaaaaaaaaaaaaa'')), (''sku'', VStr ''A1'')]]) \<and>
   update_item (Some [[(''_id'', VOid (Oid ''aaaaaaaaaaaaaaaaaaaaaaaa'')), (''sku'', VStr ''A1'')]])
     ''0123456789abcdef01234567''
     \<lparr>name = Some ''bolt'', sku = None, category = None, location = None, quantity = None,
      min_stock = None, cost = None, price = None\<rparr> =
     (Inl (HTTPException 404 ''Item not found''),
      Some [[(''_id'', VOid (Oid ''aaaaaaaaaaaaaaaaaaaaaaaa'')), (''sku'', VStr ''A1'')]])"
proof -
  let ?items = "[[(''_id'', VOid (Oid ''aaaaaaaaaaaaaaaaaaaaaaaa'')), (''sku'', VStr ''A1'')]]"
  let ?data = "\<lparr>name = Some ''bolt'', sku = None, category = None, location = None,
      quantity = None, min_stock = None, cost = None, price = None\<rparr>"
  have h1: "ObjectId ''not-an-id'' = None" by code_simp
  have h2: "ObjectId ''0123456789abcdef01234567'' = Some (Oid ''0123456789abcdef01234567'')"
    by code_simp
  have h3: "find_one [Field ''_id'' (Eq (VOid (Oid ''0123456789abcdef01234567'')))] ?items = None"
    by simp
  have h4: "model_dump_exclude_none ?data \<noteq> [] \<and> map_of (model_dump_exclude_none ?data) ''sku'' = None"
    by (simp add: model_dump_exclude_none_def List.map_filter_def)
  show ?thesis
    using h1 h2 h4 invalid_id_rejected [OF h1 h2 h3, of "Some ?items" ?data]
      invalid_id_rejected [OF h1 h2 h3, of None ?data]
    by simp
qed

lemma find_all_empty [simp]: "find_all [] items = items"
  by (simp add: find_all_def matches_def)

lemma sum_quantity_ints:
  "\<forall>d\<in>set items. map_of d ''quantity'' = Some (VInt (q d)) \<Longrightarrow>
   sum_quantity items = Inr (\<Sum>d\<leftarrow>items. q d)"
  by (induction items) (auto simp: dict_get_def)

lemma below_min_ints:
  "map_of d ''quantity'' = Some (VInt n) \<Longrightarrow> map_of d ''min_stock'' = Some (VInt m) \<Longrightarrow>
   below_min d = Inr (m > n)"
  by (simp add: below_min_def dict_get_def py_or_def)

lemma count_low_ints:
  "\<forall>d\<in>set items. map_of d ''quantity'' = Some (VInt (q d)) \<and>
     map_of d ''min_stock'' = Some (VInt (m d)) \<Longrightarrow>
   count_low items = Inr (int (length (filter (\<lambda>d. m d > q d) items)))"
  by (induction items) (auto simp: below_min_ints)

text \<open>Claim C4. When every item holds an integer quantity \<open>q d\<close> and an integer reorder
  threshold \<open>m d\<close>, \<open>inventory_stats\<close> returns the number of items, the sum of the
  quantities and the number of items whose threshold is strictly greater than their
  quantity; on the empty collection the three are 0.\<close>
theorem inventory_stats_counts:
  "(\<forall>d\<in>set items. map_of d ''quantity'' = Some (VInt (q d)) \<and>
       map_of d ''min_stock'' = Some (VInt (m d))) \<longrightarrow>
   inventory_stats (Some items) =
     Inr \<lparr>total_skus = int (length items),
          total_units = (\<Sum>d\<leftarrow>items. q d),
          low_stock = int (length (filter (\<lambda>d. m d > q d) items))\<rparr>"
proof
  assume h: "\<forall>d\<in>set items. map_of d ''quantity'' = Some (VInt (q d)) \<and>
       map_of d ''min_stock'' = Some (VInt (m d))"
  then have "\<forall>d\<in>set items. map_of d ''quantity'' = Some (VInt (q d))" by simp
  from sum_quantity_ints [OF this] count_low_ints [OF h]
  show "inventory_stats (Some items) =
     Inr \<lparr>total_skus = int (length items),
          total_units = (\<Sum>d\<leftarrow>items. q d),
          low_stock = int (length (filter (\<lambda>d. m d > q d) items))\<rparr>"
    by (simp add: inventory_stats_def)
qed

theorem inventory_stats_counts_witness:
  "inventory_stats (Some []) = Inr \<lparr>total_skus = 0, total_units = 0, low_stock = 0\<rparr> \<and>
   inventory_stats
     (Some [[(''_id'', VOid (Oid ''0123456789abcdef01234567'')), (''quantity'', VInt 5),
             (''min_stock'', VInt 10)]]) =
     Inr \<lparr>total_skus = 1, total_units = 5, low_stock = 1\<rparr>"
  using inventory_stats_counts [of "[]" "\<lambda>d. 5" "\<lambda>d. 10"]
    inventory_stats_counts
      [of "[[(''_id'', VOid (Oid ''0123456789abcdef01234567'')), (''quantity'', VInt 5),
             (''min_stock'', VInt 10)]]" "\<lambda>d. 5" "\<lambda>d. 10"]
  by simp

text \<open>Claim C10. A stored quantity that is null is not read as 0: \<^verbatim>\<open>int(None)\<close> raises in
  \<open>adjust_stock\<close> and in the sum of \<open>inventory_stats\<close>, although the comparison for low
  stock, which passes the value through \<^verbatim>\<open>or 0\<close>, accepts it.\<close>
theorem null_quantity_raises:
  "adjust_stock
     (Some [[(''_id'', VOid (Oid ''0123456789abcdef01234567'')), (''quantity'', VNull)]])
     ''0123456789abcdef01234567'' \<lparr>delta = 3\<rparr> =
     (Inl TypeError,
      Some [[(''_id'', VOid (Oid ''0123456789abcdef01234567'')), (''quantity'', VNull)]]) \<and>
   inventory_stats
     (Some [[(''_id'', VOid (Oid ''0123456789abcdef01234567'')), (''quantity'', VNull)]]) =
     Inl TypeError \<and>
   below_min [(''_id'', VOid (Oid ''0123456789abcdef01234567'')), (''quantity'', VNull)] =
     Inr False"
proof -
  have h1: "ObjectId ''0123456789abcdef01234567'' = Some (Oid ''0123456789abcdef01234567'')"
    by code_simp
  show ?thesis
    using h1 by (simp add: adjust_stock_def inventory_stats_def truthy_doc_def dict_get_def
        below_min_def py_or_def)
qed


lemma map_of_payload_sku:
  "map_of (model_dump_exclude_none data) ''sku'' = map_option VStr (ItemUpdate.sku data)"
proof (cases "ItemUpdate.sku data")
  case None
  have "\<And>v. (''sku'', v) \<notin> set (model_dump_exclude_none data)"
    unfolding model_dump_exclude_none_def set_map_filter_opt using None by simp
  then have "map_of (model_dump_exclude_none data) ''sku'' = None"
    by (meson map_of_SomeD not_Some_eq)
  with None show ?thesis by simp
next
  case (Some s)
  have "(''sku'', VStr s) \<in> set (model_dump_exclude_none data)"
    unfolding model_dump_exclude_none_def set_map_filter_opt using Some by simp
  with payload_distinct [of data] have "map_of (model_dump_exclude_none data) ''sku'' = Some (VStr s)"
    by simp
  with Some show ?thesis by simp
qed

lemma payload_nonempty_sku:
  "ItemUpdate.sku data = Some s \<Longrightarrow> model_dump_exclude_none data \<noteq> []"
  using map_of_payload_sku [of data] by auto

lemma matches_sku_other:
  "matches [Field ''sku'' (Eq v), Field ''_id'' (Ne (VOid oid))] d \<longleftrightarrow>
   map_of d ''sku'' = Some v \<and> map_of d ''_id'' \<noteq> Some (VOid oid)"
  by (simp add: matches_def)

lemma truthy_find_sku_other:
  "truthy_doc (find_one [Field ''sku'' (Eq v), Field ''_id'' (Ne (VOid oid))] items) \<longleftrightarrow>
   (\<exists>d\<in>set items. map_of d ''sku'' = Some v \<and> map_of d ''_id'' \<noteq> Some (VOid oid))"
proof (cases "find_one [Field ''sku'' (Eq v), Field ''_id'' (Ne (VOid oid))] items")
  case None
  then have "\<forall>d\<in>set items. \<not> matches [Field ''sku'' (Eq v), Field ''_id'' (Ne (VOid oid))] d"
    by (simp add: find_one_None)
  then have "\<not> (\<exists>d\<in>set items. map_of d ''sku'' = Some v \<and> map_of d ''_id'' \<noteq> Some (VOid oid))"
    by (simp add: matches_sku_other)
  with None show ?thesis by simp
next
  case (Some d)
  from find_one_Some [OF Some] have "d \<in> set items" "map_of d ''sku'' = Some v"
    "map_of d ''_id'' \<noteq> Some (VOid oid)" by (auto simp: matches_sku_other)
  moreover from this have "d \<noteq> []" by auto
  ultimately show ?thesis using Some by (auto simp: truthy_doc_def)
qed

lemma update_item_found:
  assumes "ObjectId item_id = Some oid"
    and "find_one [Field ''_id'' (Eq (VOid oid))] items = Some old"
    and "model_dump_exclude_none data \<noteq> []"
    and "\<not> (case map_of (model_dump_exclude_none data) ''sku'' of None \<Rightarrow> False
           | Some s \<Rightarrow> truthy_doc (find_one [Field ''sku'' (Eq s), Field ''_id'' (Ne (VOid oid))] items))"
  shows "\<exists>pre post. items = pre @ old # post \<and> (\<forall>x\<in>set pre. map_of x ''_id'' \<noteq> Some (VOid oid)) \<and>
     update_item (Some items) item_id data =
       (Inr (serialize_doc (set_fields (model_dump_exclude_none data) old)),
        Some (pre @ set_fields (model_dump_exclude_none data) old # post))"
proof -
  let ?q = "[Field ''_id'' (Eq (VOid oid))]"
  let ?p = "model_dump_exclude_none data"
  from update_one_found [OF assms(2), of ?p]
  obtain pre post where sp: "items = pre @ old # post" "\<forall>x\<in>set pre. \<not> matches ?q x"
    and up: "update_one ?q ?p items = (1, pre @ set_fields ?p old # post)"
    by auto
  from assms(2) have "map_of old ''_id'' = Some (VOid oid)" using find_id_nonempty by blast
  then have "map_of (set_fields ?p old) ''_id'' = Some (VOid oid)"
    by (simp add: map_of_set_fields [OF payload_distinct] payload_no_id)
  then have fo: "find_one ?q (pre @ set_fields ?p old # post) = Some (set_fields ?p old)"
    using find_one_append [OF sp(2)] by simp
  have "update_item (Some items) item_id data =
       (Inr (serialize_doc (set_fields ?p old)), Some (pre @ set_fields ?p old # post))"
    using assms(1,3,4) up fo by (simp add: update_item_def Let_def)
  with sp show ?thesis by auto
qed

lemma update_item_not_found:
  assumes "ObjectId item_id = Some oid"
    and "find_one [Field ''_id'' (Eq (VOid oid))] items = None"
    and "model_dump_exclude_none data \<noteq> []"
    and "\<not> (case map_of (model_dump_exclude_none data) ''sku'' of None \<Rightarrow> False
           | Some s \<Rightarrow> truthy_doc (find_one [Field ''sku'' (Eq s), Field ''_id'' (Ne (VOid oid))] items))"
  shows "update_item (Some items) item_id data = (Inl (HTTPException 404 ''Item not found''), Some items)"
  using assms update_one_missing [OF assms(2)] by (simp add: update_item_def Let_def)

lemma update_item_collision:
  assumes "ObjectId item_id = Some oid"
    and "model_dump_exclude_none data \<noteq> []"
    and "(case map_of (model_dump_exclude_none data) ''sku'' of None \<Rightarrow> False
           | Some s \<Rightarrow> truthy_doc (find_one [Field ''sku'' (Eq s), Field ''_id'' (Ne (VOid oid))] items))"
  shows "update_item (Some items) item_id data =
    (Inl (HTTPException 400 ''SKU already in use by another item''), Some items)"
  using assms by (simp add: update_item_def Let_def)

text \<open>Claim C7. An update of a well-formed id that supplies a SKU fails with the error 400
  \<open>SKU already in use by another item\<close> exactly when some item with a different
  identifier holds that SKU; when no such item exists and the id matches an item, as when
  an item is given its own SKU again, the update succeeds.\<close>
theorem update_item_sku_collision:
  assumes "ObjectId item_id = Some oid"
    and "ItemUpdate.sku data = Some s"
  shows "(fst (update_item (Some items) item_id data) =
            Inl (HTTPException 400 ''SKU already in use by another item'') \<longleftrightarrow>
          (\<exists>d\<in>set items. map_of d ''sku'' = Some (VStr s) \<and> map_of d ''_id'' \<noteq> Some (VOid oid))) \<and>
     (find_one [Field ''_id'' (Eq (VOid oid))] items = Some old \<and>
      \<not> (\<exists>d\<in>set items. map_of d ''sku'' = Some (VStr s) \<and> map_of d ''_id'' \<noteq> Some (VOid oid)) \<longrightarrow>
      (\<exists>r items'. update_item (Some items) item_id data = (Inr r, Some items')))"
proof -
  let ?C = "\<exists>d\<in>set items. map_of d ''sku'' = Some (VStr s) \<and> map_of d ''_id'' \<noteq> Some (VOid oid)"
  let ?p = "model_dump_exclude_none data"
  have ne: "?p \<noteq> []" using payload_nonempty_sku [OF assms(2)] .
  have sk: "map_of ?p ''sku'' = Some (VStr s)" using map_of_payload_sku [of data] assms(2) by simp
  have cond: "(case map_of ?p ''sku'' of None \<Rightarrow> False
           | Some s \<Rightarrow> truthy_doc (find_one [Field ''sku'' (Eq s), Field ''_id'' (Ne (VOid oid))] items))
        \<longleftrightarrow> ?C"
    by (simp add: sk truthy_find_sku_other)
  have one: "fst (update_item (Some items) item_id data) =
            Inl (HTTPException 400 ''SKU already in use by another item'') \<longleftrightarrow> ?C"
  proof (cases ?C)
    case True
    with cond update_item_collision [OF assms(1) ne, of items] show ?thesis by simp
  next
    case False
    with cond have nc: "\<not> (case map_of ?p ''sku'' of None \<Rightarrow> False
           | Some s \<Rightarrow> truthy_doc (find_one [Field ''sku'' (Eq s), Field ''_id'' (Ne (VOid oid))] items))"
      by simp
    show ?thesis
    proof (cases "find_one [Field ''_id'' (Eq (VOid oid))] items")
      case None
      from update_item_not_found [OF assms(1) None ne nc] False show ?thesis by simp
    next
      case (Some d)
      from update_item_found [OF assms(1) Some ne nc] False show ?thesis by auto
    qed
  qed
  have two: "find_one [Field ''_id'' (Eq (VOid oid))] items = Some old \<and> \<not> ?C \<longrightarrow>
      (\<exists>r items'. update_item (Some items) item_id data = (Inr r, Some items'))"
  proof
    assume h: "find_one [Field ''_id'' (Eq (VOid oid))] items = Some old \<and> \<not> ?C"
    with cond have nc: "\<not> (case map_of ?p ''sku'' of None \<Rightarrow> False
           | Some s \<Rightarrow> truthy_doc (find_one [Field ''sku'' (Eq s), Field ''_id'' (Ne (VOid oid))] items))"
      by simp
    from h have f: "find_one [Field ''_id'' (Eq (VOid oid))] items = Some old" by simp
    from update_item_found [OF assms(1) f ne nc]
    show "\<exists>r items'. update_item (Some items) item_id data = (Inr r, Some items')" by blast
  qed
  from one two show ?thesis by simp
qed


theorem update_item_sku_collision_witness:
  "ObjectId ''aaaaaaaaaaaaaaaaaaaaaaaa'' = Some (Oid ''aaaaaaaaaaaaaaaaaaaaaaaa'') \<and>
   fst (update_item
     (Some [[(''_id'', VOid (Oid ''aaaaaaaaaaaaaaaaaaaaaaaa'')), (''sku'', VStr ''A1'')],
            [(''_id'', VOid (Oid ''bbbbbbbbbbbbbbbbbbbbbbbb'')), (''sku'', VStr ''B2'')]])
     ''aaaaaaaaaaaaaaaaaaaaaaaa''
     \<lparr>name = None, sku = Some ''B2'', category = None, location = None, quantity = None,
      min_stock = None, cost = None, price = None\<rparr>) =
     Inl (HTTPException 400 ''SKU already in use by another item'') \<and>
   (\<exists>r items'. update_item
     (Some [[(''_id'', VOid (Oid ''aaaaaaaaaaaaaaaaaaaaaaaa'')), (''sku'', VStr ''A1'')],
            [(''_id'', VOid (Oid ''bbbbbbbbbbbbbbbbbbbbbbbb'')), (''sku'', VStr ''B2'')]])
     ''aaaaaaaaaaaaaaaaaaaaaaaa''
     \<lparr>name = None, sku = Some ''A1'', category = None, location = None, quantity = None,
      min_stock = None, cost = None, price = None\<rparr> = (Inr r, Some items'))"
proof -
  let ?a = "[(''_id'', VOid (Oid ''aaaaaaaaaaaaaaaaaaaaaaaa'')), (''sku'', VStr ''A1'')]"
  let ?b = "[(''_id'', VOid (Oid ''bbbbbbbbbbbbbbbbbbbbbbbb'')), (''sku'', VStr ''B2'')]"
  let ?other = "\<lparr>name = None, sku = Some ''B2'', category = None, location = None,
      quantity = None, min_stock = None, cost = None, price = None\<rparr>"
  let ?own = "\<lparr>name = None, sku = Some ''A1'', category = None, location = None,
      quantity = None, min_stock = None, cost = None, price = None\<rparr>"
  have h1: "ObjectId ''aaaaaaaaaaaaaaaaaaaaaaaa'' = Some (Oid ''aaaaaaaaaaaaaaaaaaaaaaaa'')"
    by code_simp
  have h2: "ItemUpdate.sku ?other = Some ''B2''" by simp
  have h3: "ItemUpdate.sku ?own = Some ''A1''" by simp
  have h4: "find_one [Field ''_id'' (Eq (VOid (Oid ''aaaaaaaaaaaaaaaaaaaaaaaa'')))] [?a, ?b] = Some ?a"
    by simp
  from update_item_sku_collision [OF h1 h2, of "[?a, ?b]" ?a]
  have c1: "fst (update_item (Some [?a, ?b]) ''aaaaaaaaaaaaaaaaaaaaaaaa'' ?other) =
     Inl (HTTPException 400 ''SKU already in use by another item'')"
    by simp
  from update_item_sku_collision [OF h1 h3, of "[?a, ?b]" ?a] h4
  have c2: "\<exists>r items'. update_item (Some [?a, ?b]) ''aaaaaaaaaaaaaaaaaaaaaaaa'' ?own =
     (Inr r, Some items')"
    by simp
  from h1 c1 c2 show ?thesis by simp
qed




lemma matches_sku [simp]:
  "matches [Field ''sku'' (Eq v)] d \<longleftrightarrow> map_of d ''sku'' = Some v"
  by (simp add: matches_def)

lemma truthy_find_sku:
  "truthy_doc (find_one [Field ''sku'' (Eq v)] items) \<longleftrightarrow>
   (\<exists>d\<in>set items. map_of d ''sku'' = Some v)"
proof (cases "find_one [Field ''sku'' (Eq v)] items")
  case None
  then have "\<forall>d\<in>set items. \<not> matches [Field ''sku'' (Eq v)] d"
    by (simp add: find_one_None)
  then have "\<not> (\<exists>d\<in>set items. map_of d ''sku'' = Some v)" by simp
  with None show ?thesis by simp
next
  case (Some d)
  from find_one_Some [OF Some] have "d \<in> set items" "map_of d ''sku'' = Some v" by auto
  moreover from this have "d \<noteq> []" by auto
  ultimately show ?thesis using Some by (auto simp: truthy_doc_def)
qed

text \<open>Claim C2. A create request whose SKU is the SKU of an item of the collection fails
  with status 400 and the detail \<open>SKU already exists\<close>, and the collection is unchanged.
  Otherwise, with a fresh identifier \<open>new_id\<close> from the store, the item is appended to the
  collection and returned, serialized, with status 201.\<close>
theorem create_item_unique_sku:
  "((\<exists>d\<in>set items. map_of d ''sku'' = Some (VStr (Item.sku item))) \<longrightarrow>
      post_items (Some items) new_id item =
        (Inl (HTTPException 400 ''SKU already exists''), Some items)) \<and>
   (\<not> (\<exists>d\<in>set items. map_of d ''sku'' = Some (VStr (Item.sku item))) \<and>
    (\<forall>d\<in>set items. map_of d ''_id'' \<noteq> Some (VOid new_id)) \<and>
    ObjectId (oid_str new_id) = Some new_id \<longrightarrow>
      post_items (Some items) new_id item =
        (Inr (Response 201 (Some (serialize_doc ((''_id'', VOid new_id) # model_dump item)))),
         Some (items @ [(''_id'', VOid new_id) # model_dump item])))"
proof (intro conjI impI)
  assume "\<exists>d\<in>set items. map_of d ''sku'' = Some (VStr (Item.sku item))"
  then have "truthy_doc (find_one [Field ''sku'' (Eq (VStr (Item.sku item)))] items)"
    by (simp add: truthy_find_sku)
  then show "post_items (Some items) new_id item =
        (Inl (HTTPException 400 ''SKU already exists''), Some items)"
    by (simp add: post_items_def create_item_def respond_def)
next
  let ?q = "[Field ''_id'' (Eq (VOid new_id))]"
  let ?stored = "(''_id'', VOid new_id) # model_dump item"
  assume h: "\<not> (\<exists>d\<in>set items. map_of d ''sku'' = Some (VStr (Item.sku item))) \<and>
    (\<forall>d\<in>set items. map_of d ''_id'' \<noteq> Some (VOid new_id)) \<and>
    ObjectId (oid_str new_id) = Some new_id"
  then have nt: "\<not> truthy_doc (find_one [Field ''sku'' (Eq (VStr (Item.sku item)))] items)"
    by (simp add: truthy_find_sku)
  from h have fresh: "\<forall>x\<in>set items. \<not> matches ?q x" by simp
  then have nf: "find_one ?q items = None" by (simp add: find_one_None)
  have ins: "insert_one new_id (model_dump item) items = Inr (items @ [?stored])"
    using nf by (simp add: insert_one_def)
  have cd: "create_document (Some items) new_id item = (Inr (oid_str new_id), Some (items @ [?stored]))"
    using ins by (simp add: create_document_def)
  have fo: "find_one ?q (items @ [?stored]) = Some ?stored"
    using find_one_append [OF fresh, of ?stored "[]"] by simp
  have "create_item (Some items) new_id item = (Inr (serialize_doc ?stored), Some (items @ [?stored]))"
    using nt cd fo h by (simp add: create_item_def)
  then show "post_items (Some items) new_id item =
        (Inr (Response 201 (Some (serialize_doc ?stored))), Some (items @ [?stored]))"
    by (simp add: post_items_def respond_def is_body_allowed_for_status_code_def)
qed

theorem create_item_unique_sku_witness:
  "post_items
     (Some [[(''_id'', VOid (Oid ''aaaaaaaaaaaaaaaaaaaaaaaa'')), (''sku'', VStr ''A1'')]])
     (Oid ''bbbbbbbbbbbbbbbbbbbbbbbb'')
     \<lparr>Item.name = ''bolt'', Item.sku = ''A1'', Item.category = ''parts'', Item.location = ''bin 3'', Item.quantity = 5,
      Item.min_stock = 10, Item.cost = PyFloat (Inr 1) ''1.5'' True, Item.price = PyFloat (Inr 2) ''2.0'' True\<rparr> =
   (Inl (HTTPException 400 ''SKU already exists''),
    Some [[(''_id'', VOid (Oid ''aaaaaaaaaaaaaaaaaaaaaaaa'')), (''sku'', VStr ''A1'')]]) \<and>
   post_items
     (Some [[(''_id'', VOid (Oid ''aaaaaaaaaaaaaaaaaaaaaaaa'')), (''sku'', VStr ''A1'')]])
     (Oid ''bbbbbbbbbbbbbbbbbbbbbbbb'')
     \<lparr>Item.name = ''nut'', Item.sku = ''N7'', Item.category = ''parts'', Item.location = ''bin 4'', Item.quantity = 5,
      Item.min_stock = 10, Item.cost = PyFloat (Inr 1) ''1.5'' True, Item.price = PyFloat (Inr 2) ''2.0'' True\<rparr> =
   (Inr (Response 201 (Some
      [(''name'', VStr ''nut''), (''sku'', VStr ''N7''), (''category'', VStr ''parts''),
       (''location'', VStr ''bin 4''), (''quantity'', VInt 5), (''min_stock'', VInt 10),
       (''cost'', VFloat (PyFloat (Inr 1) ''1.5'' True)),
       (''price'', VFloat (PyFloat (Inr 2) ''2.0'' True)),
       (''id'', VStr ''bbbbbbbbbbbbbbbbbbbbbbbb'')])),
    Some [[(''_id'', VOid (Oid ''aaaaaaaaaaaaaaaaaaaaaaaa'')), (''sku'', VStr ''A1'')],
          [(''_id'', VOid (Oid ''bbbbbbbbbbbbbbbbbbbbbbbb'')), (''name'', VStr ''nut''),
           (''sku'', VStr ''N7''), (''category'', VStr ''parts''), (''location'', VStr ''bin 4''),
           (''quantity'', VInt 5), (''min_stock'', VInt 10),
           (''cost'', VFloat (PyFloat (Inr 1) ''1.5'' True)),
           (''price'', VFloat (PyFloat (Inr 2) ''2.0'' True))]])"
proof -
  let ?items = "[[(''_id'', VOid (Oid ''aaaaaaaaaaaaaaaaaaaaaaaa'')), (''sku'', VStr ''A1'')]]"
  let ?dup = "\<lparr>Item.name = ''bolt'', Item.sku = ''A1'', Item.category = ''parts'', Item.location = ''bin 3'',
      Item.quantity = 5, Item.min_stock = 10, Item.cost = PyFloat (Inr 1) ''1.5'' True,
      Item.price = PyFloat (Inr 2) ''2.0'' True\<rparr>"
  let ?fresh = "\<lparr>Item.name = ''nut'', Item.sku = ''N7'', Item.category = ''parts'', Item.location = ''bin 4'',
      Item.quantity = 5, Item.min_stock = 10, Item.cost = PyFloat (Inr 1) ''1.5'' True,
      Item.price = PyFloat (Inr 2) ''2.0'' True\<rparr>"
  have h1: "ObjectId (oid_str (Oid ''bbbbbbbbbbbbbbbbbbbbbbbb'')) = Some (Oid ''bbbbbbbbbbbbbbbbbbbbbbbb'')"
    by code_simp
  show ?thesis
    using h1 create_item_unique_sku [of ?items ?dup "Oid ''bbbbbbbbbbbbbbbbbbbbbbbb''"]
      create_item_unique_sku [of ?items ?fresh "Oid ''bbbbbbbbbbbbbbbbbbbbbbbb''"]
    by (simp add: model_dump_def serialize_doc_def)
qed


subsection \<open>Searching\<close>









end
